theory Spec2Isabelle
  imports Complex_Main
begin

section \<open>Values, objects and exceptions\<close>

text \<open>
  The server \<^verbatim>\<open>mcp_responsive.py\<close> is modelled at the level of its two functions,
  \<^verbatim>\<open>make_responsive_request\<close> and \<^verbatim>\<open>search_content\<close>.

  JSON-compatible values are trees. A Python value held in a variable is either an
  immutable scalar or a reference to a mutable container (a list or a dict) that lives
  in the store; the store maps the address of a container to its current contents.
  The default values \<^verbatim>\<open>[]\<close> and \<^verbatim>\<open>{}\<close> of \<^verbatim>\<open>search_content\<close> are such containers:
  Python creates them once, when the \<^verbatim>\<open>def\<close> statement runs, and every call that omits
  the parameter receives a reference to the same object.
\<close>

datatype jvalue =
  JNull
| JBool bool
| JInt int
| JStr string
| JList "jvalue list"
| JObj "(string \<times> jvalue) list"

type_synonym addr = nat

datatype pyval =
  PyNone
| PyBool bool
| PyInt int
| PyStr string
| PyRef addr

type_synonym heap = "addr \<Rightarrow> jvalue"

fun deref :: "heap \<Rightarrow> pyval \<Rightarrow> jvalue" where
  "deref h PyNone = JNull"
| "deref h (PyBool b) = JBool b"
| "deref h (PyInt i) = JInt i"
| "deref h (PyStr s) = JStr s"
| "deref h (PyRef a) = h a"

text \<open>
  Exceptions, by the classes the code raises or catches. All of them are instances of
  Python's \<^verbatim>\<open>Exception\<close>: the first three constructors stand for \<^verbatim>\<open>Exception\<close> itself
  and for the built-in errors of a call that cannot be bound or of a name that is not
  defined. \<open>HTTPStatusError\<close> carries the two attributes of \<^verbatim>\<open>e.response\<close> that the
  handler reads. \<open>UnicodeDecodeError\<close> is what the JSON parser raises on a body whose
  bytes are not text; it is a \<^verbatim>\<open>ValueError\<close> and not a \<^verbatim>\<open>JSONDecodeError\<close>. Signals outside the \<^verbatim>\<open>Exception\<close> hierarchy (the cancellation of the
  task, the exit of the interpreter) are not failures of a call and are not modelled.
\<close>

datatype exn =
  Exception string
| TypeError string
| NameError string
| RequestError string
| HTTPStatusError int string
| JSONDecodeError string
| UnicodeDecodeError string

section \<open>The remote endpoint\<close>

record http_request =
  url :: string
  headers :: "(string \<times> string) list"
  body :: jvalue
  timeout :: real

text \<open>
  A response, with the attributes the code uses: \<^verbatim>\<open>status_code\<close>, \<^verbatim>\<open>text\<close> and the outcome
  of \<^verbatim>\<open>response.json()\<close>, which is the parsed body or the exception the parser raises.
\<close>

record response =
  status_code :: int
  response_text :: string
  json :: "exn + jvalue"

text \<open>
  The remote service is a parameter: given the requests sent so far and the current
  request, \<^verbatim>\<open>client.post\<close> either raises or returns a response.
\<close>

type_synonym remote = "http_request list \<Rightarrow> http_request \<Rightarrow> exn + response"

text \<open>The state a call can touch: the store of containers and the log of outbound calls.\<close>

record world =
  heap :: heap
  sent :: "http_request list"

text \<open>\<^verbatim>\<open>response.raise_for_status()\<close> of httpx: any status outside 200..299 raises.\<close>

definition raise_for_status :: "response \<Rightarrow> exn + response" where
  "raise_for_status r =
     (if 200 \<le> status_code r \<and> status_code r \<le> 299 then Inr r
      else Inl (HTTPStatusError (status_code r) (response_text r)))"

section \<open>Formatting\<close>

text \<open>The decimal text of an integer, as an f-string writes it.\<close>

fun str_nat :: "nat \<Rightarrow> string" where
  "str_nat n =
     (if n < 10 then [''0123456789'' ! n]
      else str_nat (n div 10) @ [''0123456789'' ! (n mod 10)])"

declare str_nat.simps [simp del]

definition str_int :: "int \<Rightarrow> string" where
  "str_int i = (if i < 0 then ''-'' @ str_nat (nat (- i)) else str_nat (nat i))"

text \<open>Reading a decimal text back, to say which number a message carries.\<close>

definition digit_value :: "char \<Rightarrow> nat" where
  "digit_value c = of_char c - 48"

definition read_nat :: "string \<Rightarrow> nat" where
  "read_nat s = foldl (\<lambda>acc c. 10 * acc + digit_value c) 0 s"

definition read_int :: "string \<Rightarrow> int" where
  "read_int s =
     (case s of
        [] \<Rightarrow> 0
      | c # cs \<Rightarrow> if c = CHR ''-'' then - int (read_nat cs) else int (read_nat s))"

section \<open>make_responsive_request\<close>

definition base_url :: string where
  "base_url = ''https://app.rfpio.com''"

text \<open>\<^verbatim>\<open>json=data\<close>: the dict is written to the wire with every reference followed.\<close>

definition serialize :: "heap \<Rightarrow> (string \<times> pyval) list \<Rightarrow> jvalue" where
  "serialize h data = JObj (map (\<lambda>(k, v). (k, deref h v)) data)"

text \<open>The four \<^verbatim>\<open>except\<close> clauses of lines 32 to 43, in the order of the source.\<close>

fun except_clauses :: "exn \<Rightarrow> jvalue" where
  "except_clauses (RequestError m) =
     JObj [(''error'', JStr (''Error communicating with Responsive API: '' @ m))]"
| "except_clauses (HTTPStatusError code txt) =
     JObj [(''error'', JStr (''HTTP Error: '' @ str_int code))]"
| "except_clauses (JSONDecodeError m) =
     JObj [(''error'', JStr ''Invalid JSON response from server'')]"
| "except_clauses (Exception m) =
     JObj [(''error'', JStr (''An unexpected error occurred: '' @ m))]"
| "except_clauses (TypeError m) =
     JObj [(''error'', JStr (''An unexpected error occurred: '' @ m))]"
| "except_clauses (NameError m) =
     JObj [(''error'', JStr (''An unexpected error occurred: '' @ m))]"
| "except_clauses (UnicodeDecodeError m) =
     JObj [(''error'', JStr (''An unexpected error occurred: '' @ m))]"

text \<open>
  The mapping an \<^verbatim>\<open>except\<close> clause returns has the single key \<open>error\<close> and no field
  for a kind. The kinds of the specification, section 3, are read off the returned
  mapping by the fixed text of the clause its message carries.
\<close>

datatype error_kind = Transport | HttpStatus | Decode | Unexpected | Configuration

definition starts_with :: "string \<Rightarrow> string \<Rightarrow> bool" where
  "starts_with p s = (take (length p) s = p)"

definition message_kind :: "string \<Rightarrow> error_kind option" where
  "message_kind msg =
     (if starts_with ''Error communicating with Responsive API: '' msg then Some Transport
      else if starts_with ''HTTP Error: '' msg then Some HttpStatus
      else if msg = ''Invalid JSON response from server'' then Some Decode
      else if starts_with ''An unexpected error occurred: '' msg then Some Unexpected
      else None)"

fun error_kind_of :: "jvalue \<Rightarrow> error_kind option" where
  "error_kind_of (JObj [(k, JStr msg)]) = (if k = ''error'' then message_kind msg else None)"
| "error_kind_of v = None"

text \<open>The request of line 29, for a token \<open>tok\<close>.\<close>

definition post_request :: "string \<Rightarrow> heap \<Rightarrow> (string \<times> pyval) list \<Rightarrow> http_request" where
  "post_request tok h data =
     \<lparr>url = base_url @ ''/rfpserver/ext/v1/answer-lib/search'',
      headers = [(''Authorization'', ''Bearer '' @ tok), (''Content-Type'', ''application/json'')],
      body = serialize h data,
      timeout = 30\<rparr>"

text \<open>The body of the \<^verbatim>\<open>try\<close>, lines 29 to 31, after the request has been logged.\<close>

definition try_body :: "exn + response \<Rightarrow> exn + jvalue" where
  "try_body posted =
     (case posted of
        Inl e \<Rightarrow> Inl e
      | Inr resp \<Rightarrow>
          (case raise_for_status resp of
             Inl e \<Rightarrow> Inl e
           | Inr resp' \<Rightarrow> json resp'))"

text \<open>
  \<^verbatim>\<open>api_token\<close> is read from the environment once, at import: \<open>None\<close> when the variable
  is not set. \<^verbatim>\<open>not api_token\<close> holds for \<open>None\<close> and for the empty string. The result is
  \<open>Inl e\<close> when the call raises \<open>e\<close> and \<open>Inr v\<close> when it returns \<open>v\<close>.
\<close>

definition make_responsive_request ::
  "string option \<Rightarrow> remote \<Rightarrow> (string \<times> pyval) list \<Rightarrow> world \<Rightarrow> (exn + jvalue) \<times> world" where
  "make_responsive_request api_token rem data w =
     (case api_token of
        None \<Rightarrow> (Inl (Exception ''RESPONSIVE_API_TOKEN environment variable not set''), w)
      | Some tok \<Rightarrow>
          if tok = [] then
            (Inl (Exception ''RESPONSIVE_API_TOKEN environment variable not set''), w)
          else
            let req = post_request tok (heap w) data;
                w' = w\<lparr>sent := sent w @ [req]\<rparr>
            in (case try_body (rem (sent w) req) of
                  Inr v \<Rightarrow> (Inr v, w')
                | Inl e \<Rightarrow> (Inr (except_clauses e), w')))"

section \<open>search_content\<close>

datatype pytype = TStr | TListStr | TDictStrAny | TBool | TInt

text \<open>
  The signature of lines 47 to 54: name, annotation and default of each parameter. The
  twelve container defaults are twelve distinct objects, at the addresses 0 to 11.
\<close>

definition search_content_params :: "(string \<times> pytype \<times> pyval option) list" where
  "search_content_params =
     [(''keyword'', TStr, None),
      (''approvers'', TListStr, Some (PyRef 0)),
      (''businessUnits'', TListStr, Some (PyRef 1)),
      (''collectionList'', TListStr, Some (PyRef 2)),
      (''cursor'', TStr, Some (PyStr ''*'')),
      (''customFields'', TDictStrAny, Some (PyRef 3)),
      (''facetFields'', TListStr, Some (PyRef 4)),
      (''flagFilter'', TStr, Some (PyStr ''ALL'')),
      (''hasAlertText'', TBool, Some (PyBool False)),
      (''hasAttachment'', TBool, Some (PyBool False)),
      (''hasImage'', TBool, Some (PyBool False)),
      (''hasOpenComment'', TBool, Some (PyBool False)),
      (''idsList'', TListStr, Some (PyRef 5)),
      (''languageSearch'', TListStr, Some (PyRef 6)),
      (''lastUpdatedBy'', TListStr, Some (PyRef 7)),
      (''limit'', TInt, Some (PyInt 25)),
      (''metadata'', TBool, Some (PyBool False)),
      (''owners'', TListStr, Some (PyRef 8)),
      (''projectSearch'', TListStr, Some (PyRef 9)),
      (''sectionSearch'', TListStr, Some (PyRef 10)),
      (''starRating'', TInt, Some (PyInt 0)),
      (''tagSearch'', TListStr, Some (PyRef 11))]"

text \<open>What the \<^verbatim>\<open>def\<close> statement puts in the store: eleven empty lists and one empty dict.\<close>

definition default_objects :: "(addr \<times> jvalue) list" where
  "default_objects =
     [(0, JList []), (1, JList []), (2, JList []), (3, JObj []), (4, JList []),
      (5, JList []), (6, JList []), (7, JList []), (8, JList []), (9, JList []),
      (10, JList []), (11, JList [])]"

definition defaults_intact :: "heap \<Rightarrow> bool" where
  "defaults_intact h = list_all (\<lambda>(a, v). h a = v) default_objects"

text \<open>
  Binding the keyword arguments of a call to the parameters, as Python does: a parameter
  takes the argument of its name, else its default; a parameter with neither, or an
  argument that names no parameter, is a \<^verbatim>\<open>TypeError\<close>. No annotation is checked.
\<close>

fun bind_params ::
  "(string \<times> pytype \<times> pyval option) list \<Rightarrow> (string \<times> pyval) list \<Rightarrow> exn + (string \<times> pyval) list" where
  "bind_params [] args = Inr []"
| "bind_params ((n, ty, d) # ps) args =
     (case (case map_of args n of Some v \<Rightarrow> Some v | None \<Rightarrow> d) of
        None \<Rightarrow>
          Inl (TypeError (''search_content() missing 1 required positional argument: ''
                 @ [CHR 0x27] @ n @ [CHR 0x27]))
      | Some v \<Rightarrow>
          (case bind_params ps args of
             Inl e \<Rightarrow> Inl e
           | Inr bound \<Rightarrow> Inr ((n, v) # bound)))"

definition bind_arguments ::
  "(string \<times> pytype \<times> pyval option) list \<Rightarrow> (string \<times> pyval) list \<Rightarrow> exn + (string \<times> pyval) list" where
  "bind_arguments params args =
     (case filter (\<lambda>k. k \<notin> set (map fst params)) (map fst args) of
        k # _ \<Rightarrow>
          Inl (TypeError (''search_content() got an unexpected keyword argument ''
                 @ [CHR 0x27] @ k @ [CHR 0x27]))
      | [] \<Rightarrow> bind_params params args)"

text \<open>
  The dict display of lines 87 to 110: each key with the local variable whose value it
  takes, in the order of the source.
\<close>

definition data_items :: "(string \<times> string) list" where
  "data_items =
     [(''keyword'', ''keyword''),
      (''approvers'', ''approvers''),
      (''businessUnits'', ''businessUnits''),
      (''collectionList'', ''collectionList''),
      (''cursor'', ''cursor''),
      (''customFields'', ''customFields''),
      (''facetFields'', ''facetFields''),
      (''flagFilter'', ''flagFilter''),
      (''hasAlertText'', ''hasAlertText''),
      (''hasAttachment'', ''hasAttachment''),
      (''hasImage'', ''hasImage''),
      (''hasOpenComment'', ''hasOpenComment''),
      (''idsList'', ''idsList''),
      (''languageSearch'', ''languageSearch''),
      (''lastUpdatedBy'', ''lastUpdatedBy''),
      (''limit'', ''limit''),
      (''metadata'', ''metadata''),
      (''owners'', ''owners''),
      (''projectSearch'', ''projectSearch''),
      (''sectionSearch'', ''sectionSearch''),
      (''starRating'', ''starRating''),
      (''tagSearch'', ''tagSearch'')]"

fun build_data ::
  "(string \<times> string) list \<Rightarrow> (string \<times> pyval) list \<Rightarrow> exn + (string \<times> pyval) list" where
  "build_data [] locals = Inr []"
| "build_data ((k, x) # items) locals =
     (case map_of locals x of
        None \<Rightarrow> Inl (NameError (''name '' @ [CHR 0x27] @ x @ [CHR 0x27] @ '' is not defined''))
      | Some v \<Rightarrow>
          (case build_data items locals of
             Inl e \<Rightarrow> Inl e
           | Inr data \<Rightarrow> Inr ((k, v) # data)))"

text \<open>
  Lines 47 to 54 and 87 to 110 of a call \<^verbatim>\<open>search_content(**args)\<close>: the arguments are
  bound, then the dict \<^verbatim>\<open>data\<close> is built from the local variables.
\<close>

definition request_data :: "(string \<times> pyval) list \<Rightarrow> exn + (string \<times> pyval) list" where
  "request_data args =
     (case bind_arguments search_content_params args of
        Inl e \<Rightarrow> Inl e
      | Inr locals \<Rightarrow> build_data data_items locals)"

text \<open>
  The whole call. The \<^verbatim>\<open>print\<close> of line 112 only writes the payload to the standard
  output and is left out. Nothing in the body assigns to a container, so the store is
  passed through.
\<close>

definition search_content ::
  "string option \<Rightarrow> remote \<Rightarrow> (string \<times> pyval) list \<Rightarrow> world \<Rightarrow> (exn + jvalue) \<times> world" where
  "search_content api_token rem args w =
     (case request_data args of
        Inl e \<Rightarrow> (Inl e, w)
      | Inr data \<Rightarrow> make_responsive_request api_token rem data w)"

text \<open>The payload an invocation builds in a given store, or the exception of the binding.\<close>

definition outbound_payload :: "(string \<times> pyval) list \<Rightarrow> world \<Rightarrow> exn + jvalue" where
  "outbound_payload args w =
     (case request_data args of
        Inl e \<Rightarrow> Inl e
      | Inr data \<Rightarrow> Inr (serialize (heap w) data))"

text \<open>The value a parameter takes: the argument given under its name, else \<open>d\<close>.\<close>

definition given_or :: "(string \<times> pyval) list \<Rightarrow> string \<Rightarrow> pyval \<Rightarrow> pyval" where
  "given_or args n d = (case map_of args n of Some v \<Rightarrow> v | None \<Rightarrow> d)"

section \<open>Sequences of invocations\<close>

text \<open>The server handles one invocation after another; each starts in the state the
  previous one left.\<close>

fun run_calls :: "string option \<Rightarrow> remote \<Rightarrow> (string \<times> pyval) list list \<Rightarrow> world \<Rightarrow> world" where
  "run_calls api_token rem [] w = w"
| "run_calls api_token rem (args # rest) w =
     run_calls api_token rem rest (snd (search_content api_token rem args w))"

section \<open>The tool surface\<close>

text \<open>
  \<^verbatim>\<open>@mcp.tool()\<close> at line 46 is the only registration of the module: it registers
  \<^verbatim>\<open>search_content\<close> under its own name, with its signature as parameter schema.
\<close>

record tool_descriptor =
  tool_name :: string
  parameters :: "(string \<times> pytype \<times> pyval option) list"

definition list_tools :: "tool_descriptor list" where
  "list_tools = [\<lparr>tool_name = ''search_content'', parameters = search_content_params\<rparr>]"

datatype dispatch_error = UnknownTool string | ValidationError string | Raised exn

record envelope =
  correlationId :: nat
  ok :: bool
  payload :: "jvalue option"
  error :: "dispatch_error option"

text \<open>
  Modelled from the spec: the validation of the arguments against the parameter schema
  (sections 4.1 and 4.3) is the work of the \<^verbatim>\<open>mcp\<close> package, which is not among the
  sources; the source only declares the annotations. The arguments are the values as
  decoded from the request. A value conforms to an annotation when it is of the
  annotated type: a string, a sequence of strings, a mapping, a boolean, an integer.
  Validation walks the schema in order and names the first parameter that is required
  and missing, or given with a value that does not conform.
\<close>

fun conforms :: "heap \<Rightarrow> pytype \<Rightarrow> pyval \<Rightarrow> bool" where
  "conforms h TStr (PyStr s) = True"
| "conforms h TListStr (PyRef a) =
     (case h a of JList xs \<Rightarrow> list_all (\<lambda>x. case x of JStr s \<Rightarrow> True | _ \<Rightarrow> False) xs
      | _ \<Rightarrow> False)"
| "conforms h TDictStrAny (PyRef a) = (case h a of JObj kvs \<Rightarrow> True | _ \<Rightarrow> False)"
| "conforms h TBool (PyBool b) = True"
| "conforms h TInt (PyInt i) = True"
| "conforms h ty v = False"

fun validate_params ::
  "heap \<Rightarrow> (string \<times> pytype \<times> pyval option) list \<Rightarrow> (string \<times> pyval) list \<Rightarrow> string option" where
  "validate_params h [] args = None"
| "validate_params h ((n, ty, d) # ps) args =
     (case map_of args n of
        None \<Rightarrow> (case d of None \<Rightarrow> Some n | Some dv \<Rightarrow> validate_params h ps args)
      | Some v \<Rightarrow> if conforms h ty v then validate_params h ps args else Some n)"

text \<open>
  Modelled from the spec: the request builder of section 4.1, \<open>build\<close>. It fails with a
  validation error when the arguments do not pass the validation above; otherwise it
  yields the dict that lines 47 to 54 and 87 to 110 of the source build.
\<close>

definition build ::
  "heap \<Rightarrow> (string \<times> pyval) list \<Rightarrow> dispatch_error + (string \<times> pyval) list" where
  "build h args =
     (case validate_params h search_content_params args of
        Some n \<Rightarrow> Inl (ValidationError n)
      | None \<Rightarrow>
          (case request_data args of
             Inl e \<Rightarrow> Inl (Raised e)
           | Inr data \<Rightarrow> Inr data))"

text \<open>
  Modelled from the spec: the dispatcher and the response envelope of sections 4.3, 4.4
  and 6 are the work of the \<^verbatim>\<open>mcp\<close> package, which is not among the sources. The
  dispatcher looks the handler up by tool name (\<open>UnknownTool\<close> when there is none),
  validates the arguments against the schema of the descriptor, and only then invokes
  the handler; it wraps what it gets, unchanged, in the envelope
  \<^verbatim>\<open>{correlationId, ok, payload | error}\<close>: a value the handler returns is the payload of
  an envelope with \<open>ok\<close> set; a validation error, or an exception the handler raises, is
  the error of one with \<open>ok\<close> cleared. The handler is \<open>search_content\<close> of the source.
\<close>

definition call_tool ::
  "string option \<Rightarrow> remote \<Rightarrow> nat \<Rightarrow> string \<Rightarrow> (string \<times> pyval) list \<Rightarrow> world \<Rightarrow> envelope \<times> world" where
  "call_tool api_token rem cid name args w =
     (if name \<in> set (map tool_name list_tools) then
        (case validate_params (heap w) search_content_params args of
           Some n \<Rightarrow>
             (\<lparr>correlationId = cid, ok = False, payload = None,
               error = Some (ValidationError n)\<rparr>, w)
         | None \<Rightarrow>
             (case search_content api_token rem args w of
                (Inl e, w') \<Rightarrow>
                  (\<lparr>correlationId = cid, ok = False, payload = None, error = Some (Raised e)\<rparr>, w')
              | (Inr v, w') \<Rightarrow>
                  (\<lparr>correlationId = cid, ok = True, payload = Some v, error = None\<rparr>, w')))
      else
        (\<lparr>correlationId = cid, ok = False, payload = None, error = Some (UnknownTool name)\<rparr>, w))"

section \<open>The documented field set\<close>

text \<open>
  The SearchRequest of the specification, section 3, written from its words: the fields,
  arranged in the order of the signature, and the documented default of each optional
  one.
\<close>

definition field_names :: "string list" where
  "field_names =
     [''keyword'', ''approvers'', ''businessUnits'', ''collectionList'', ''cursor'',
      ''customFields'', ''facetFields'', ''flagFilter'', ''hasAlertText'', ''hasAttachment'',
      ''hasImage'', ''hasOpenComment'', ''idsList'', ''languageSearch'', ''lastUpdatedBy'',
      ''limit'', ''metadata'', ''owners'', ''projectSearch'', ''sectionSearch'',
      ''starRating'', ''tagSearch'']"

definition spec_defaults :: "(string \<times> jvalue) list" where
  "spec_defaults =
     [(''approvers'', JList []), (''businessUnits'', JList []), (''collectionList'', JList []),
      (''idsList'', JList []), (''languageSearch'', JList []), (''lastUpdatedBy'', JList []),
      (''owners'', JList []), (''projectSearch'', JList []), (''sectionSearch'', JList []),
      (''tagSearch'', JList []), (''facetFields'', JList []),
      (''cursor'', JStr ''*''),
      (''customFields'', JObj []),
      (''flagFilter'', JStr ''ALL''),
      (''hasAlertText'', JBool False), (''hasAttachment'', JBool False),
      (''hasImage'', JBool False), (''hasOpenComment'', JBool False),
      (''metadata'', JBool False),
      (''limit'', JInt 25),
      (''starRating'', JInt 0)]"

text \<open>The value the specification documents for a field of a request: the argument
  given, else the documented default.\<close>

definition spec_field :: "heap \<Rightarrow> (string \<times> pyval) list \<Rightarrow> string \<Rightarrow> jvalue option" where
  "spec_field h args n =
     (case map_of args n of Some v \<Rightarrow> Some (deref h v) | None \<Rightarrow> map_of spec_defaults n)"

section \<open>Fixtures\<close>

text \<open>The store right after import, with nothing sent yet.\<close>

definition module_heap :: heap where
  "module_heap = (\<lambda>a. if a = 3 then JObj [] else if a < 12 then JList [] else JNull)"

definition world0 :: world where
  "world0 = \<lparr>heap = module_heap, sent = []\<rparr>"

text \<open>Four remote endpoints: one that answers 200 with a JSON body, one that answers 500,
  one that cannot be reached and one whose body is not JSON.\<close>

definition remote_ok :: remote where
  "remote_ok hist req =
     Inr \<lparr>status_code = 200, response_text = ''{}'',
          json = Inr (JObj [(''results'', JList []), (''cursor'', JStr ''*'')])\<rparr>"

definition remote_500 :: remote where
  "remote_500 hist req =
     Inr \<lparr>status_code = 500, response_text = ''Internal Server Error'',
          json = Inl (JSONDecodeError ''Expecting value: line 1 column 1 (char 0)'')\<rparr>"

definition remote_down :: remote where
  "remote_down hist req = Inl (RequestError ''All connection attempts failed'')"

definition remote_garbled :: remote where
  "remote_garbled hist req =
     Inr \<lparr>status_code = 200, response_text = ''<html>'',
          json = Inl (JSONDecodeError ''Expecting value: line 1 column 1 (char 0)'')\<rparr>"

text \<open>An endpoint that answers 200 with a body whose bytes are not text.\<close>

definition remote_undecodable :: remote where
  "remote_undecodable hist req =
     Inr \<lparr>status_code = 200, response_text = [],
          json = Inl (UnicodeDecodeError
            ''utf-8 codec cannot decode byte 0xff in position 0: invalid start byte'')\<rparr>"

section \<open>The transport adapter\<close>

lemma str_int_500: "str_int 500 = ''500''"
  by (simp add: str_int_def str_nat.simps)

lemma mrr_no_token:
  "api_token = None \<or> api_token = Some [] \<Longrightarrow>
   make_responsive_request api_token rem data w =
     (Inl (Exception ''RESPONSIVE_API_TOKEN environment variable not set''), w)"
  by (auto simp: make_responsive_request_def)

lemma mrr_configured:
  "tok \<noteq> [] \<Longrightarrow>
   make_responsive_request (Some tok) rem data w =
     (Inr (case try_body (rem (sent w) (post_request tok (heap w) data)) of
             Inr v \<Rightarrow> v | Inl e \<Rightarrow> except_clauses e),
      w\<lparr>sent := sent w @ [post_request tok (heap w) data]\<rparr>)"
  by (simp add: make_responsive_request_def Let_def split: sum.splits)

lemma try_body_raised: "try_body (Inl e) = Inl e"
  by (simp add: try_body_def)

lemma try_body_status:
  "\<not> (200 \<le> status_code r \<and> status_code r \<le> 299) \<Longrightarrow>
   try_body (Inr r) = Inl (HTTPStatusError (status_code r) (response_text r))"
  by (auto simp: try_body_def raise_for_status_def)

lemma try_body_success:
  "200 \<le> status_code r \<Longrightarrow> status_code r \<le> 299 \<Longrightarrow> try_body (Inr r) = json r"
  by (simp add: try_body_def raise_for_status_def)




lemma digit_value_nth: "d < 10 \<Longrightarrow> digit_value (''0123456789'' ! d) = d"
proof -
  assume "d < 10"
  then have "d = 0 \<or> d = 1 \<or> d = 2 \<or> d = 3 \<or> d = 4 \<or> d = 5 \<or> d = 6 \<or> d = 7 \<or> d = 8 \<or> d = 9"
    by arith
  then show ?thesis
    by (elim disjE) (simp_all add: digit_value_def)
qed

lemma digit_not_minus: "d < 10 \<Longrightarrow> ''0123456789'' ! d \<noteq> CHR ''-''"
proof -
  assume "d < 10"
  then have "d = 0 \<or> d = 1 \<or> d = 2 \<or> d = 3 \<or> d = 4 \<or> d = 5 \<or> d = 6 \<or> d = 7 \<or> d = 8 \<or> d = 9"
    by arith
  then show ?thesis
    by (elim disjE) simp_all
qed

lemma read_nat_snoc: "read_nat (s @ [c]) = 10 * read_nat s + digit_value c"
  by (simp add: read_nat_def)

lemma read_nat_str_nat: "read_nat (str_nat n) = n"
proof (induction n rule: str_nat.induct)
  case (1 n)
  show ?case
  proof (cases "n < 10")
    case True
    then have "str_nat n = [''0123456789'' ! n]" by (subst str_nat.simps) simp
    then show ?thesis using True by (simp add: read_nat_def digit_value_nth)
  next
    case False
    then have "str_nat n = str_nat (n div 10) @ [''0123456789'' ! (n mod 10)]"
      by (subst str_nat.simps) simp
    then show ?thesis
      using False "1.IH" by (simp add: read_nat_snoc digit_value_nth)
  qed
qed

lemma str_nat_first: "\<exists>c cs. str_nat n = c # cs \<and> c \<noteq> CHR ''-''"
proof (induction n rule: str_nat.induct)
  case (1 n)
  show ?case
  proof (cases "n < 10")
    case True
    then have "str_nat n = [''0123456789'' ! n]" by (subst str_nat.simps) simp
    then show ?thesis using True digit_not_minus by blast
  next
    case False
    then have eq: "str_nat n = str_nat (n div 10) @ [''0123456789'' ! (n mod 10)]"
      by (subst str_nat.simps) simp
    from False "1.IH" obtain c cs where "str_nat (n div 10) = c # cs" and "c \<noteq> CHR ''-''"
      by blast
    then show ?thesis using eq by simp
  qed
qed

lemma read_int_str_int: "read_int (str_int i) = i"
proof (cases "i < 0")
  case True
  then show ?thesis
    by (simp add: str_int_def read_int_def read_nat_str_nat)
next
  case False
  obtain c cs where c: "str_nat (nat i) = c # cs" and m: "c \<noteq> CHR ''-''"
    using str_nat_first by blast
  have "read_int (str_nat (nat i)) = int (read_nat (str_nat (nat i)))"
    by (simp add: read_int_def c m)
  then show ?thesis using False by (simp add: str_int_def read_nat_str_nat)
qed

lemma starts_with_append: "starts_with p (p @ m)"
  by (simp add: starts_with_def)

lemma kind_transport:
  "error_kind_of (JObj [(''error'', JStr (''Error communicating with Responsive API: '' @ m))]) =
     Some Transport"
  using starts_with_append [of "''Error communicating with Responsive API: ''" m]
  by (simp add: message_kind_def)

lemma kind_status:
  "error_kind_of (JObj [(''error'', JStr (''HTTP Error: '' @ m))]) = Some HttpStatus"
proof -
  have a: "\<not> starts_with ''Error communicating with Responsive API: '' (''HTTP Error: '' @ m)"
    by (simp add: starts_with_def)
  have b: "starts_with ''HTTP Error: '' (''HTTP Error: '' @ m)"
    by (rule starts_with_append)
  show ?thesis using a b by (simp add: message_kind_def)
qed

lemma kind_decode:
  "error_kind_of (JObj [(''error'', JStr ''Invalid JSON response from server'')]) = Some Decode"
  by (simp add: message_kind_def starts_with_def)

lemma kind_unexpected:
  "error_kind_of (JObj [(''error'', JStr (''An unexpected error occurred: '' @ m))]) =
     Some Unexpected"
proof -
  have a: "\<not> starts_with ''Error communicating with Responsive API: ''
               (''An unexpected error occurred: '' @ m)"
    by (simp add: starts_with_def)
  have b: "\<not> starts_with ''HTTP Error: '' (''An unexpected error occurred: '' @ m)"
    by (simp add: starts_with_def)
  have c: "''An unexpected error occurred: '' @ m \<noteq> ''Invalid JSON response from server''"
    by simp
  have d: "starts_with ''An unexpected error occurred: '' (''An unexpected error occurred: '' @ m)"
    by (rule starts_with_append)
  show ?thesis using a b c d by (simp add: message_kind_def)
qed


text \<open>
  Claim C2, as the code has it. With no credential \<open>make_responsive_request\<close> raises.
  With one, it returns a value whatever the outcome of the outbound call, a mapping with
  the single key \<open>error\<close> for every failure: a network-level failure (\<open>RequestError\<close>)
  gives the transport message with the cause; a status outside 200..299 gives the
  message that carries the status code in decimal; a body on which the parser raises
  \<open>JSONDecodeError\<close> gives the invalid-JSON message; any other exception, raised by the
  call or by the parser of a body (a body whose bytes are not text among them), gives
  the unexpected-error message with the text of the exception. The kind is not a field
  of the mapping; it is read off the message.
\<close>

theorem C2_failures_classified:
  shows "((api_token = None \<or> api_token = Some []) \<longrightarrow>
            fst (make_responsive_request api_token rem data w) =
              Inl (Exception ''RESPONSIVE_API_TOKEN environment variable not set''))
    \<and> (tok \<noteq> [] \<longrightarrow>
         (\<exists>v. fst (make_responsive_request (Some tok) rem data w) = Inr v)
       \<and> (\<forall>m. rem (sent w) (post_request tok (heap w) data) = Inl (RequestError m) \<longrightarrow>
             fst (make_responsive_request (Some tok) rem data w) =
               Inr (JObj [(''error'', JStr (''Error communicating with Responsive API: '' @ m))])
           \<and> error_kind_of
                (JObj [(''error'', JStr (''Error communicating with Responsive API: '' @ m))]) =
               Some Transport)
       \<and> (\<forall>r. rem (sent w) (post_request tok (heap w) data) = Inr r
               \<and> \<not> (200 \<le> status_code r \<and> status_code r \<le> 299) \<longrightarrow>
             fst (make_responsive_request (Some tok) rem data w) =
               Inr (JObj [(''error'', JStr (''HTTP Error: '' @ str_int (status_code r)))])
           \<and> read_int (str_int (status_code r)) = status_code r
           \<and> error_kind_of (JObj [(''error'', JStr (''HTTP Error: '' @ str_int (status_code r)))]) =
               Some HttpStatus)
       \<and> (\<forall>r m. rem (sent w) (post_request tok (heap w) data) = Inr r
               \<and> 200 \<le> status_code r \<and> status_code r \<le> 299
               \<and> json r = Inl (JSONDecodeError m) \<longrightarrow>
             fst (make_responsive_request (Some tok) rem data w) =
               Inr (JObj [(''error'', JStr ''Invalid JSON response from server'')])
           \<and> error_kind_of (JObj [(''error'', JStr ''Invalid JSON response from server'')]) =
               Some Decode)
       \<and> (\<forall>e m. e \<in> {Exception m, TypeError m, NameError m, UnicodeDecodeError m}
               \<and> (rem (sent w) (post_request tok (heap w) data) = Inl e
                  \<or> (\<exists>r. rem (sent w) (post_request tok (heap w) data) = Inr r
                        \<and> 200 \<le> status_code r \<and> status_code r \<le> 299 \<and> json r = Inl e)) \<longrightarrow>
             fst (make_responsive_request (Some tok) rem data w) =
               Inr (JObj [(''error'', JStr (''An unexpected error occurred: '' @ m))])
           \<and> error_kind_of (JObj [(''error'', JStr (''An unexpected error occurred: '' @ m))]) =
               Some Unexpected))"
proof (rule conjI; rule impI)
  assume "api_token = None \<or> api_token = Some []"
  then show "fst (make_responsive_request api_token rem data w) =
               Inl (Exception ''RESPONSIVE_API_TOKEN environment variable not set'')"
    by (simp add: mrr_no_token)
next
  let ?out = "rem (sent w) (post_request tok (heap w) data)"
  let ?res = "fst (make_responsive_request (Some tok) rem data w)"
  assume tok: "tok \<noteq> []"
  have res: "?res = Inr (case try_body ?out of Inr v \<Rightarrow> v | Inl e \<Rightarrow> except_clauses e)"
    using tok by (simp add: mrr_configured)
  have never: "\<exists>v. ?res = Inr v"
    by (simp add: res)
  have transport: "?res = Inr (JObj [(''error'', JStr (''Error communicating with Responsive API: '' @ m))])"
    if "?out = Inl (RequestError m)" for m
    using that by (simp add: res try_body_raised)
  have status: "?res = Inr (JObj [(''error'', JStr (''HTTP Error: '' @ str_int (status_code r)))])"
    if "?out = Inr r \<and> \<not> (200 \<le> status_code r \<and> status_code r \<le> 299)" for r
  proof -
    from that have "try_body ?out = Inl (HTTPStatusError (status_code r) (response_text r))"
      by (simp add: try_body_status)
    then show ?thesis by (simp add: res)
  qed
  have decode: "?res = Inr (JObj [(''error'', JStr ''Invalid JSON response from server'')])"
    if "?out = Inr r \<and> 200 \<le> status_code r \<and> status_code r \<le> 299
          \<and> json r = Inl (JSONDecodeError m)" for r m
  proof -
    from that have "try_body ?out = Inl (JSONDecodeError m)"
      by (simp add: try_body_success)
    then show ?thesis by (simp add: res)
  qed
  have other: "?res = Inr (JObj [(''error'', JStr (''An unexpected error occurred: '' @ m))])"
    if "e \<in> {Exception m, TypeError m, NameError m, UnicodeDecodeError m}
        \<and> (?out = Inl e
            \<or> (\<exists>r. ?out = Inr r \<and> 200 \<le> status_code r \<and> status_code r \<le> 299 \<and> json r = Inl e))"
    for e m
  proof -
    from that have "try_body ?out = Inl e"
      by (auto simp: try_body_raised try_body_success)
    moreover from that have "except_clauses e =
        JObj [(''error'', JStr (''An unexpected error occurred: '' @ m))]"
      by auto
    ultimately show ?thesis by (simp add: res)
  qed
  show "(\<exists>v. ?res = Inr v)
       \<and> (\<forall>m. ?out = Inl (RequestError m) \<longrightarrow>
             ?res = Inr (JObj [(''error'', JStr (''Error communicating with Responsive API: '' @ m))])
           \<and> error_kind_of
                (JObj [(''error'', JStr (''Error communicating with Responsive API: '' @ m))]) =
               Some Transport)
       \<and> (\<forall>r. ?out = Inr r \<and> \<not> (200 \<le> status_code r \<and> status_code r \<le> 299) \<longrightarrow>
             ?res = Inr (JObj [(''error'', JStr (''HTTP Error: '' @ str_int (status_code r)))])
           \<and> read_int (str_int (status_code r)) = status_code r
           \<and> error_kind_of (JObj [(''error'', JStr (''HTTP Error: '' @ str_int (status_code r)))]) =
               Some HttpStatus)
       \<and> (\<forall>r m. ?out = Inr r \<and> 200 \<le> status_code r \<and> status_code r \<le> 299
               \<and> json r = Inl (JSONDecodeError m) \<longrightarrow>
             ?res = Inr (JObj [(''error'', JStr ''Invalid JSON response from server'')])
           \<and> error_kind_of (JObj [(''error'', JStr ''Invalid JSON response from server'')]) =
               Some Decode)
       \<and> (\<forall>e m. e \<in> {Exception m, TypeError m, NameError m, UnicodeDecodeError m}
               \<and> (?out = Inl e
                  \<or> (\<exists>r. ?out = Inr r
                        \<and> 200 \<le> status_code r \<and> status_code r \<le> 299 \<and> json r = Inl e)) \<longrightarrow>
             ?res = Inr (JObj [(''error'', JStr (''An unexpected error occurred: '' @ m))])
           \<and> error_kind_of (JObj [(''error'', JStr (''An unexpected error occurred: '' @ m))]) =
               Some Unexpected)"
  proof (intro conjI allI impI)
    show "\<exists>v. ?res = Inr v" by (rule never)
  next
    fix m assume "?out = Inl (RequestError m)"
    then show "?res = Inr (JObj [(''error'', JStr (''Error communicating with Responsive API: '' @ m))])"
      by (rule transport)
  next
    fix m
    show "error_kind_of
            (JObj [(''error'', JStr (''Error communicating with Responsive API: '' @ m))]) =
          Some Transport"
      by (rule kind_transport)
  next
    fix r assume "?out = Inr r \<and> \<not> (200 \<le> status_code r \<and> status_code r \<le> 299)"
    then show "?res = Inr (JObj [(''error'', JStr (''HTTP Error: '' @ str_int (status_code r)))])"
      by (rule status)
  next
    fix r
    show "read_int (str_int (status_code r)) = status_code r"
      by (rule read_int_str_int)
  next
    fix r
    show "error_kind_of (JObj [(''error'', JStr (''HTTP Error: '' @ str_int (status_code r)))]) =
            Some HttpStatus"
      by (rule kind_status)
  next
    fix r m
    assume "?out = Inr r \<and> 200 \<le> status_code r \<and> status_code r \<le> 299
              \<and> json r = Inl (JSONDecodeError m)"
    then show "?res = Inr (JObj [(''error'', JStr ''Invalid JSON response from server'')])"
      by (rule decode)
  next
    show "error_kind_of (JObj [(''error'', JStr ''Invalid JSON response from server'')]) =
            Some Decode"
      by (rule kind_decode)
  next
    fix e m
    assume "e \<in> {Exception m, TypeError m, NameError m, UnicodeDecodeError m}
        \<and> (?out = Inl e
            \<or> (\<exists>r. ?out = Inr r \<and> 200 \<le> status_code r \<and> status_code r \<le> 299 \<and> json r = Inl e))"
    then show "?res = Inr (JObj [(''error'', JStr (''An unexpected error occurred: '' @ m))])"
      by (rule other)
  next
    fix m
    show "error_kind_of (JObj [(''error'', JStr (''An unexpected error occurred: '' @ m))]) =
            Some Unexpected"
      by (rule kind_unexpected)
  qed
qed


lemma str_int_404: "str_int 404 = ''404''"
  by (simp add: str_int_def str_nat.simps)

text \<open>The theorem with no credential, and at endpoints that cannot be reached, that
  answer 500, whose body is not JSON and whose body is not text.\<close>

theorem C2_failures_classified_witness:
  "''t'' \<noteq> []
   \<and> fst (make_responsive_request None remote_ok [] world0) =
       Inl (Exception ''RESPONSIVE_API_TOKEN environment variable not set'')
   \<and> fst (make_responsive_request (Some ''t'') remote_down [] world0) =
       Inr (JObj [(''error'', JStr ''Error communicating with Responsive API: All connection attempts failed'')])
   \<and> fst (make_responsive_request (Some ''t'') remote_500 [] world0) =
       Inr (JObj [(''error'', JStr ''HTTP Error: 500'')])
   \<and> read_int ''500'' = 500
   \<and> error_kind_of (JObj [(''error'', JStr ''HTTP Error: 500'')]) = Some HttpStatus
   \<and> fst (make_responsive_request (Some ''t'') remote_garbled [] world0) =
       Inr (JObj [(''error'', JStr ''Invalid JSON response from server'')])
   \<and> fst (make_responsive_request (Some ''t'') remote_undecodable [] world0) =
       Inr (JObj [(''error'', JStr
         ''An unexpected error occurred: utf-8 codec cannot decode byte 0xff in position 0: invalid start byte'')])"
proof -
  have t: "''t'' \<noteq> []" by simp
  note th0 = C2_failures_classified [THEN conjunct1, rule_format]
  note th = C2_failures_classified [where tok = "''t''" and w = world0 and data = "[]",
      THEN conjunct2, rule_format, OF t]
  have z: "fst (make_responsive_request None remote_ok [] world0) =
       Inl (Exception ''RESPONSIVE_API_TOKEN environment variable not set'')"
    by (rule th0) simp
  let ?down = "''All connection attempts failed''"
  have "fst (make_responsive_request (Some ''t'') remote_down [] world0) =
       Inr (JObj [(''error'', JStr (''Error communicating with Responsive API: '' @ ?down))])
     \<and> error_kind_of (JObj [(''error'',
           JStr (''Error communicating with Responsive API: '' @ ?down))]) = Some Transport"
    by (rule th [where rem = remote_down, THEN conjunct2, THEN conjunct1, rule_format])
       (simp add: remote_down_def)
  then have a: "fst (make_responsive_request (Some ''t'') remote_down [] world0) =
       Inr (JObj [(''error'', JStr ''Error communicating with Responsive API: All connection attempts failed'')])"
    by simp
  let ?r500 = "\<lparr>status_code = 500, response_text = ''Internal Server Error'',
          json = Inl (JSONDecodeError ''Expecting value: line 1 column 1 (char 0)'')\<rparr>"
  have s500: "fst (make_responsive_request (Some ''t'') remote_500 [] world0) =
       Inr (JObj [(''error'', JStr (''HTTP Error: '' @ str_int (status_code ?r500)))])
     \<and> read_int (str_int (status_code ?r500)) = status_code ?r500
     \<and> error_kind_of (JObj [(''error'', JStr (''HTTP Error: '' @ str_int (status_code ?r500)))]) =
               Some HttpStatus"
    by (rule th [where rem = remote_500, THEN conjunct2, THEN conjunct2, THEN conjunct1,
                 rule_format])
       (simp add: remote_500_def)
  have b: "fst (make_responsive_request (Some ''t'') remote_500 [] world0) =
       Inr (JObj [(''error'', JStr ''HTTP Error: 500'')])"
    using s500 by (simp add: str_int_500)
  have b2: "read_int ''500'' = 500"
    using s500 by (simp add: str_int_500)
  have b3: "error_kind_of (JObj [(''error'', JStr ''HTTP Error: 500'')]) = Some HttpStatus"
    using s500 by (simp add: str_int_500)
  have "fst (make_responsive_request (Some ''t'') remote_garbled [] world0) =
       Inr (JObj [(''error'', JStr ''Invalid JSON response from server'')])
     \<and> error_kind_of (JObj [(''error'', JStr ''Invalid JSON response from server'')]) =
         Some Decode"
    by (rule th [where rem = remote_garbled, THEN conjunct2, THEN conjunct2, THEN conjunct2,
              THEN conjunct1, rule_format,
              where r = "\<lparr>status_code = 200, response_text = ''<html>'',
                   json = Inl (JSONDecodeError ''Expecting value: line 1 column 1 (char 0)'')\<rparr>"
                and m = "''Expecting value: line 1 column 1 (char 0)''"])
       (simp add: remote_garbled_def)
  then have c: "fst (make_responsive_request (Some ''t'') remote_garbled [] world0) =
       Inr (JObj [(''error'', JStr ''Invalid JSON response from server'')])"
    by simp
  let ?m = "''utf-8 codec cannot decode byte 0xff in position 0: invalid start byte''"
  have "fst (make_responsive_request (Some ''t'') remote_undecodable [] world0) =
       Inr (JObj [(''error'', JStr (''An unexpected error occurred: '' @ ?m))])
     \<and> error_kind_of (JObj [(''error'', JStr (''An unexpected error occurred: '' @ ?m))]) =
         Some Unexpected"
    by (rule th [where rem = remote_undecodable, THEN conjunct2, THEN conjunct2,
              THEN conjunct2, THEN conjunct2, rule_format,
              where e = "UnicodeDecodeError ?m"])
       (simp add: remote_undecodable_def)
  then have d: "fst (make_responsive_request (Some ''t'') remote_undecodable [] world0) =
       Inr (JObj [(''error'', JStr
         ''An unexpected error occurred: utf-8 codec cannot decode byte 0xff in position 0: invalid start byte'')])"
    by simp
  show ?thesis
    using t z a b b2 b3 c d by (intro conjI)
qed

text \<open>
  Claim C2 as stated fails twice: a malformed body on which the parser raises
  \<open>UnicodeDecodeError\<close> yields the unexpected-error mapping, not the decode one; and with
  no credential the call raises past its boundary.
\<close>

theorem C2_counterexample:
  "fst (make_responsive_request (Some ''t'') remote_undecodable [] world0) =
     Inr (JObj [(''error'', JStr
       ''An unexpected error occurred: utf-8 codec cannot decode byte 0xff in position 0: invalid start byte'')])
   \<and> error_kind_of (JObj [(''error'', JStr
       ''An unexpected error occurred: utf-8 codec cannot decode byte 0xff in position 0: invalid start byte'')]) =
       Some Unexpected
   \<and> fst (make_responsive_request None remote_ok [] world0) =
       Inl (Exception ''RESPONSIVE_API_TOKEN environment variable not set'')"
proof -
  let ?m = "''utf-8 codec cannot decode byte 0xff in position 0: invalid start byte''"
  have t: "''t'' \<noteq> []" by simp
  have "try_body (remote_undecodable (sent world0) (post_request ''t'' (heap world0) [])) =
          Inl (UnicodeDecodeError ?m)"
    by (simp add: remote_undecodable_def try_body_def raise_for_status_def)
  then have a: "fst (make_responsive_request (Some ''t'') remote_undecodable [] world0) =
     Inr (JObj [(''error'', JStr (''An unexpected error occurred: '' @ ?m))])"
    by (simp add: mrr_configured [OF t])
  have b: "error_kind_of (JObj [(''error'', JStr (''An unexpected error occurred: '' @ ?m))]) =
       Some Unexpected"
    by (rule kind_unexpected)
  have c: "fst (make_responsive_request None remote_ok [] world0) =
       Inl (Exception ''RESPONSIVE_API_TOKEN environment variable not set'')"
    by (simp add: mrr_no_token)
  show ?thesis using a b c by simp
qed

text \<open>
  Claim C4. With a credential configured, when the endpoint answers with a status in
  200..299 and a body that parses, \<open>make_responsive_request\<close> returns the parsed body
  itself, with nothing added or removed, after that one request: it sends no second
  request to follow a cursor.
\<close>

theorem C4_success_payload_verbatim:
  assumes "tok \<noteq> []"
    and "rem (sent w) (post_request tok (heap w) data) = Inr r"
    and "200 \<le> status_code r" and "status_code r \<le> 299"
    and "json r = Inr v"
  shows "make_responsive_request (Some tok) rem data w =
           (Inr v, w\<lparr>sent := sent w @ [post_request tok (heap w) data]\<rparr>)"
  using assms by (simp add: mrr_configured try_body_success)

text \<open>The theorem at the endpoint that answers 200 with the body of two fields.\<close>

theorem C4_success_payload_verbatim_witness:
  "''t'' \<noteq> [] \<and> (200::int) \<le> 200 \<and> (200::int) \<le> 299
   \<and> make_responsive_request (Some ''t'') remote_ok [] world0 =
       (Inr (JObj [(''results'', JList []), (''cursor'', JStr ''*'')]),
        world0\<lparr>sent := sent world0 @ [post_request ''t'' (heap world0) []]\<rparr>)"
proof -
  have t: "''t'' \<noteq> []" by simp
  show ?thesis
    using C4_success_payload_verbatim [OF t, of remote_ok world0 "[]"
      "\<lparr>status_code = 200, response_text = ''{}'',
        json = Inr (JObj [(''results'', JList []), (''cursor'', JStr ''*'')])\<rparr>"
      "JObj [(''results'', JList []), (''cursor'', JStr ''*'')]"]
    by (simp add: remote_ok_def)
qed

lemma search_content_sent_le:
  "length (sent (snd (search_content api_token rem args w))) \<le> Suc (length (sent w))"
  by (auto simp: search_content_def make_responsive_request_def Let_def
           split: sum.splits option.splits)

section \<open>Binding the arguments\<close>

lemma given_or_Some: "map_of args n = Some v \<Longrightarrow> given_or args n d = v"
  by (simp add: given_or_def)

lemma bind_params_ok:
  "(\<And>n ty. (n, ty, None) \<in> set ps \<Longrightarrow> map_of args n \<noteq> None) \<Longrightarrow>
   bind_params ps args =
     Inr (map (\<lambda>(n, ty, d). (n, given_or args n (case d of Some v \<Rightarrow> v | None \<Rightarrow> PyNone))) ps)"
proof (induction ps)
  case Nil
  then show ?case by simp
next
  case (Cons p ps)
  obtain n ty d where p: "p = (n, ty, d)" by (cases p)
  have tl: "bind_params ps args =
     Inr (map (\<lambda>(n, ty, d). (n, given_or args n (case d of Some v \<Rightarrow> v | None \<Rightarrow> PyNone))) ps)"
    by (rule Cons.IH) (use Cons.prems in auto)
  show ?case
  proof (cases "map_of args n")
    case None
    have "d \<noteq> None"
    proof
      assume "d = None"
      then have "(n, ty, None) \<in> set (p # ps)" using p by simp
      then have "map_of args n \<noteq> None" by (rule Cons.prems)
      then show False using None by simp
    qed
    then obtain v where "d = Some v" by auto
    then show ?thesis using None p tl by (simp add: given_or_def)
  next
    case (Some v)
    then show ?thesis using p tl by (simp add: given_or_def)
  qed
qed

lemma bind_params_missing:
  "map_of args n = None \<Longrightarrow>
   bind_params ((n, ty, None) # ps) args =
     Inl (TypeError (''search_content() missing 1 required positional argument: ''
            @ [CHR 0x27] @ n @ [CHR 0x27]))"
  by simp

lemma bind_arguments_declared:
  "set (map fst args) \<subseteq> set (map fst params) \<Longrightarrow>
   bind_arguments params args = bind_params params args"
proof -
  assume "set (map fst args) \<subseteq> set (map fst params)"
  then have "filter (\<lambda>k. k \<notin> set (map fst params)) (map fst args) = []"
    by (auto simp: filter_empty_conv)
  then show ?thesis by (simp add: bind_arguments_def)
qed

lemma param_names: "map fst search_content_params = field_names"
  by (simp add: search_content_params_def field_names_def)

lemma required_is_keyword:
  "(n, ty, None) \<in> set search_content_params \<Longrightarrow> n = ''keyword''"
  by (auto simp: search_content_params_def)

lemma locals_bound:
  assumes "map_of args ''keyword'' = Some kw" and "set (map fst args) \<subseteq> set field_names"
  shows "bind_arguments search_content_params args =
     Inr [(''keyword'', kw),
      (''approvers'', given_or args ''approvers'' (PyRef 0)),
      (''businessUnits'', given_or args ''businessUnits'' (PyRef 1)),
      (''collectionList'', given_or args ''collectionList'' (PyRef 2)),
      (''cursor'', given_or args ''cursor'' (PyStr ''*'')),
      (''customFields'', given_or args ''customFields'' (PyRef 3)),
      (''facetFields'', given_or args ''facetFields'' (PyRef 4)),
      (''flagFilter'', given_or args ''flagFilter'' (PyStr ''ALL'')),
      (''hasAlertText'', given_or args ''hasAlertText'' (PyBool False)),
      (''hasAttachment'', given_or args ''hasAttachment'' (PyBool False)),
      (''hasImage'', given_or args ''hasImage'' (PyBool False)),
      (''hasOpenComment'', given_or args ''hasOpenComment'' (PyBool False)),
      (''idsList'', given_or args ''idsList'' (PyRef 5)),
      (''languageSearch'', given_or args ''languageSearch'' (PyRef 6)),
      (''lastUpdatedBy'', given_or args ''lastUpdatedBy'' (PyRef 7)),
      (''limit'', given_or args ''limit'' (PyInt 25)),
      (''metadata'', given_or args ''metadata'' (PyBool False)),
      (''owners'', given_or args ''owners'' (PyRef 8)),
      (''projectSearch'', given_or args ''projectSearch'' (PyRef 9)),
      (''sectionSearch'', given_or args ''sectionSearch'' (PyRef 10)),
      (''starRating'', given_or args ''starRating'' (PyInt 0)),
      (''tagSearch'', given_or args ''tagSearch'' (PyRef 11))]"
proof -
  have "bind_arguments search_content_params args = bind_params search_content_params args"
    using assms(2) by (simp add: bind_arguments_declared param_names)
  also have "\<dots> = Inr (map (\<lambda>(n, ty, d). (n, given_or args n (case d of Some v \<Rightarrow> v | None \<Rightarrow> PyNone))) search_content_params)"
    using assms(1) by (intro bind_params_ok) (auto dest: required_is_keyword)
  also have "\<dots> = Inr [(''keyword'', kw),
      (''approvers'', given_or args ''approvers'' (PyRef 0)),
      (''businessUnits'', given_or args ''businessUnits'' (PyRef 1)),
      (''collectionList'', given_or args ''collectionList'' (PyRef 2)),
      (''cursor'', given_or args ''cursor'' (PyStr ''*'')),
      (''customFields'', given_or args ''customFields'' (PyRef 3)),
      (''facetFields'', given_or args ''facetFields'' (PyRef 4)),
      (''flagFilter'', given_or args ''flagFilter'' (PyStr ''ALL'')),
      (''hasAlertText'', given_or args ''hasAlertText'' (PyBool False)),
      (''hasAttachment'', given_or args ''hasAttachment'' (PyBool False)),
      (''hasImage'', given_or args ''hasImage'' (PyBool False)),
      (''hasOpenComment'', given_or args ''hasOpenComment'' (PyBool False)),
      (''idsList'', given_or args ''idsList'' (PyRef 5)),
      (''languageSearch'', given_or args ''languageSearch'' (PyRef 6)),
      (''lastUpdatedBy'', given_or args ''lastUpdatedBy'' (PyRef 7)),
      (''limit'', given_or args ''limit'' (PyInt 25)),
      (''metadata'', given_or args ''metadata'' (PyBool False)),
      (''owners'', given_or args ''owners'' (PyRef 8)),
      (''projectSearch'', given_or args ''projectSearch'' (PyRef 9)),
      (''sectionSearch'', given_or args ''sectionSearch'' (PyRef 10)),
      (''starRating'', given_or args ''starRating'' (PyInt 0)),
      (''tagSearch'', given_or args ''tagSearch'' (PyRef 11))]"
    using assms(1) by (simp add: search_content_params_def given_or_Some)
  finally show ?thesis .
qed

lemma build_data_ok:
  "build_data data_items
     [(''keyword'', v0), (''approvers'', v1), (''businessUnits'', v2), (''collectionList'', v3),
      (''cursor'', v4), (''customFields'', v5), (''facetFields'', v6), (''flagFilter'', v7),
      (''hasAlertText'', v8), (''hasAttachment'', v9), (''hasImage'', v10),
      (''hasOpenComment'', v11), (''idsList'', v12), (''languageSearch'', v13),
      (''lastUpdatedBy'', v14), (''limit'', v15), (''metadata'', v16), (''owners'', v17),
      (''projectSearch'', v18), (''sectionSearch'', v19), (''starRating'', v20),
      (''tagSearch'', v21)] =
   Inr [(''keyword'', v0), (''approvers'', v1), (''businessUnits'', v2), (''collectionList'', v3),
      (''cursor'', v4), (''customFields'', v5), (''facetFields'', v6), (''flagFilter'', v7),
      (''hasAlertText'', v8), (''hasAttachment'', v9), (''hasImage'', v10),
      (''hasOpenComment'', v11), (''idsList'', v12), (''languageSearch'', v13),
      (''lastUpdatedBy'', v14), (''limit'', v15), (''metadata'', v16), (''owners'', v17),
      (''projectSearch'', v18), (''sectionSearch'', v19), (''starRating'', v20),
      (''tagSearch'', v21)]"
  by (simp add: data_items_def)

lemma request_data_ok:
  assumes "map_of args ''keyword'' = Some kw" and "set (map fst args) \<subseteq> set field_names"
  shows "request_data args =
     Inr [(''keyword'', kw),
      (''approvers'', given_or args ''approvers'' (PyRef 0)),
      (''businessUnits'', given_or args ''businessUnits'' (PyRef 1)),
      (''collectionList'', given_or args ''collectionList'' (PyRef 2)),
      (''cursor'', given_or args ''cursor'' (PyStr ''*'')),
      (''customFields'', given_or args ''customFields'' (PyRef 3)),
      (''facetFields'', given_or args ''facetFields'' (PyRef 4)),
      (''flagFilter'', given_or args ''flagFilter'' (PyStr ''ALL'')),
      (''hasAlertText'', given_or args ''hasAlertText'' (PyBool False)),
      (''hasAttachment'', given_or args ''hasAttachment'' (PyBool False)),
      (''hasImage'', given_or args ''hasImage'' (PyBool False)),
      (''hasOpenComment'', given_or args ''hasOpenComment'' (PyBool False)),
      (''idsList'', given_or args ''idsList'' (PyRef 5)),
      (''languageSearch'', given_or args ''languageSearch'' (PyRef 6)),
      (''lastUpdatedBy'', given_or args ''lastUpdatedBy'' (PyRef 7)),
      (''limit'', given_or args ''limit'' (PyInt 25)),
      (''metadata'', given_or args ''metadata'' (PyBool False)),
      (''owners'', given_or args ''owners'' (PyRef 8)),
      (''projectSearch'', given_or args ''projectSearch'' (PyRef 9)),
      (''sectionSearch'', given_or args ''sectionSearch'' (PyRef 10)),
      (''starRating'', given_or args ''starRating'' (PyInt 0)),
      (''tagSearch'', given_or args ''tagSearch'' (PyRef 11))]"
  unfolding request_data_def locals_bound [OF assms] sum.case build_data_ok ..

lemma request_data_missing:
  assumes "map_of args ''keyword'' = None"
  shows "\<exists>m. request_data args = Inl (TypeError m)"
proof (cases "filter (\<lambda>k. k \<notin> set (map fst search_content_params)) (map fst args)")
  case Nil
  then have "bind_arguments search_content_params args = bind_params search_content_params args"
    by (simp add: bind_arguments_def)
  also have "\<dots> = Inl (TypeError (''search_content() missing 1 required positional argument: ''
            @ [CHR 0x27] @ ''keyword'' @ [CHR 0x27]))"
    unfolding search_content_params_def using assms by (rule bind_params_missing)
  finally show ?thesis by (simp add: request_data_def)
next
  case (Cons k ks)
  then show ?thesis by (simp add: request_data_def bind_arguments_def)
qed

lemma search_content_heap: "heap (snd (search_content api_token rem args w)) = heap w"
  by (auto simp: search_content_def make_responsive_request_def Let_def
           split: sum.splits option.splits)

lemma run_calls_heap: "heap (run_calls api_token rem calls w) = heap w"
  by (induction calls arbitrary: w) (simp_all add: search_content_heap)

lemma run_calls_sent:
  "length (sent (run_calls api_token rem calls w)) \<le> length (sent w) + length calls"
proof (induction calls arbitrary: w)
  case Nil
  then show ?case by simp
next
  case (Cons args calls)
  have "length (sent (run_calls api_token rem (args # calls) w))
          \<le> length (sent (snd (search_content api_token rem args w))) + length calls"
    using Cons.IH by simp
  also have "\<dots> \<le> Suc (length (sent w)) + length calls"
    using search_content_sent_le [of api_token rem args w] by simp
  finally show ?case by simp
qed

lemma outbound_payload_heap:
  "heap w' = heap w \<Longrightarrow> outbound_payload args w' = outbound_payload args w"
  by (simp add: outbound_payload_def split: sum.splits)

lemma search_content_sends:
  assumes "tok \<noteq> []" and "outbound_payload args w = Inr p"
  shows "map body (sent (snd (search_content (Some tok) rem args w))) = map body (sent w) @ [p]"
proof -
  from assms(2) obtain data where d: "request_data args = Inr data" and p: "p = serialize (heap w) data"
    by (auto simp: outbound_payload_def split: sum.splits)
  show ?thesis
    using assms(1) by (simp add: search_content_def d p mrr_configured post_request_def)
qed

lemma payload_ok:
  assumes "map_of args ''keyword'' = Some kw" and "set (map fst args) \<subseteq> set field_names"
  shows "outbound_payload args w =
     Inr (JObj [(''keyword'', deref (heap w) kw),
      (''approvers'', deref (heap w) (given_or args ''approvers'' (PyRef 0))),
      (''businessUnits'', deref (heap w) (given_or args ''businessUnits'' (PyRef 1))),
      (''collectionList'', deref (heap w) (given_or args ''collectionList'' (PyRef 2))),
      (''cursor'', deref (heap w) (given_or args ''cursor'' (PyStr ''*''))),
      (''customFields'', deref (heap w) (given_or args ''customFields'' (PyRef 3))),
      (''facetFields'', deref (heap w) (given_or args ''facetFields'' (PyRef 4))),
      (''flagFilter'', deref (heap w) (given_or args ''flagFilter'' (PyStr ''ALL''))),
      (''hasAlertText'', deref (heap w) (given_or args ''hasAlertText'' (PyBool False))),
      (''hasAttachment'', deref (heap w) (given_or args ''hasAttachment'' (PyBool False))),
      (''hasImage'', deref (heap w) (given_or args ''hasImage'' (PyBool False))),
      (''hasOpenComment'', deref (heap w) (given_or args ''hasOpenComment'' (PyBool False))),
      (''idsList'', deref (heap w) (given_or args ''idsList'' (PyRef 5))),
      (''languageSearch'', deref (heap w) (given_or args ''languageSearch'' (PyRef 6))),
      (''lastUpdatedBy'', deref (heap w) (given_or args ''lastUpdatedBy'' (PyRef 7))),
      (''limit'', deref (heap w) (given_or args ''limit'' (PyInt 25))),
      (''metadata'', deref (heap w) (given_or args ''metadata'' (PyBool False))),
      (''owners'', deref (heap w) (given_or args ''owners'' (PyRef 8))),
      (''projectSearch'', deref (heap w) (given_or args ''projectSearch'' (PyRef 9))),
      (''sectionSearch'', deref (heap w) (given_or args ''sectionSearch'' (PyRef 10))),
      (''starRating'', deref (heap w) (given_or args ''starRating'' (PyInt 0))),
      (''tagSearch'', deref (heap w) (given_or args ''tagSearch'' (PyRef 11)))])"
  by (simp add: outbound_payload_def request_data_ok [OF assms] serialize_def)

lemma defaults_intact_values:
  "defaults_intact h \<Longrightarrow>
   h 0 = JList [] \<and> h 1 = JList [] \<and> h 2 = JList [] \<and> h 3 = JObj [] \<and> h 4 = JList []
   \<and> h 5 = JList [] \<and> h 6 = JList [] \<and> h 7 = JList [] \<and> h 8 = JList [] \<and> h 9 = JList []
   \<and> h 10 = JList [] \<and> h 11 = JList []"
  by (simp add: defaults_intact_def default_objects_def)

lemma spec_field_given: "map_of args n = Some v \<Longrightarrow> spec_field h args n = Some (deref h v)"
  by (simp add: spec_field_def)

lemma spec_field_default:
  "map_of spec_defaults n = Some (deref h d) \<Longrightarrow>
   Some (deref h (given_or args n d)) = spec_field h args n"
  by (simp add: spec_field_def given_or_def split: option.splits)

section \<open>The request builder\<close>

text \<open>
  Claim C5. Take the store as the \<^verbatim>\<open>def\<close> statement left it (every default container
  empty), any number of earlier invocations, and an argument mapping that gives
  \<open>keyword\<close> and names only declared parameters, omitting any of the optional ones. The
  payload the invocation builds has exactly the 22 declared fields, in the declared
  order, and each field holds the argument given for it or, when omitted, the documented
  default: 25 for \<open>limit\<close>, \<open>ALL\<close> for \<open>flagFilter\<close>, \<open>*\<close> for \<open>cursor\<close>, 0 for
  \<open>starRating\<close>, false for the booleans, the empty list for the lists and the empty
  mapping for \<open>customFields\<close>. With a credential configured this payload is the body of
  the request sent.
\<close>

theorem C5_payload_complete_with_defaults:
  assumes "defaults_intact (heap w0)"
    and "map_of args ''keyword'' \<noteq> None"
    and "set (map fst args) \<subseteq> set field_names"
  shows "\<exists>entries.
           outbound_payload args (run_calls api_token rem calls w0) = Inr (JObj entries)
         \<and> map fst entries = field_names
         \<and> (\<forall>n \<in> set field_names. map_of entries n = spec_field (heap w0) args n)
         \<and> (tok \<noteq> [] \<longrightarrow>
              map body (sent (snd (search_content (Some tok) rem
                                     args (run_calls api_token rem calls w0)))) =
              map body (sent (run_calls api_token rem calls w0)) @ [JObj entries])"
proof -
  let ?w = "run_calls api_token rem calls w0"
  let ?h = "heap w0"
  from assms(2) obtain kw where kw: "map_of args ''keyword'' = Some kw" by auto
  have h: "heap ?w = ?h" by (rule run_calls_heap)
  note vals = defaults_intact_values [OF assms(1)]
  let ?entries = "[(''keyword'', deref ?h kw),
      (''approvers'', deref ?h (given_or args ''approvers'' (PyRef 0))),
      (''businessUnits'', deref ?h (given_or args ''businessUnits'' (PyRef 1))),
      (''collectionList'', deref ?h (given_or args ''collectionList'' (PyRef 2))),
      (''cursor'', deref ?h (given_or args ''cursor'' (PyStr ''*''))),
      (''customFields'', deref ?h (given_or args ''customFields'' (PyRef 3))),
      (''facetFields'', deref ?h (given_or args ''facetFields'' (PyRef 4))),
      (''flagFilter'', deref ?h (given_or args ''flagFilter'' (PyStr ''ALL''))),
      (''hasAlertText'', deref ?h (given_or args ''hasAlertText'' (PyBool False))),
      (''hasAttachment'', deref ?h (given_or args ''hasAttachment'' (PyBool False))),
      (''hasImage'', deref ?h (given_or args ''hasImage'' (PyBool False))),
      (''hasOpenComment'', deref ?h (given_or args ''hasOpenComment'' (PyBool False))),
      (''idsList'', deref ?h (given_or args ''idsList'' (PyRef 5))),
      (''languageSearch'', deref ?h (given_or args ''languageSearch'' (PyRef 6))),
      (''lastUpdatedBy'', deref ?h (given_or args ''lastUpdatedBy'' (PyRef 7))),
      (''limit'', deref ?h (given_or args ''limit'' (PyInt 25))),
      (''metadata'', deref ?h (given_or args ''metadata'' (PyBool False))),
      (''owners'', deref ?h (given_or args ''owners'' (PyRef 8))),
      (''projectSearch'', deref ?h (given_or args ''projectSearch'' (PyRef 9))),
      (''sectionSearch'', deref ?h (given_or args ''sectionSearch'' (PyRef 10))),
      (''starRating'', deref ?h (given_or args ''starRating'' (PyInt 0))),
      (''tagSearch'', deref ?h (given_or args ''tagSearch'' (PyRef 11)))]"
  have built: "outbound_payload args ?w = Inr (JObj ?entries)"
    using payload_ok [OF kw assms(3), of ?w] by (simp only: h)
  have keys: "map fst ?entries = field_names"
    by (simp add: field_names_def)
  have fields: "\<forall>n \<in> set field_names. map_of ?entries n = spec_field ?h args n"
    by (simp add: field_names_def spec_field_given [OF kw] spec_field_default
          spec_defaults_def vals del: One_nat_def)
  have wire: "map body (sent (snd (search_content (Some tok) rem args ?w))) =
                map body (sent ?w) @ [JObj ?entries]" if "tok \<noteq> []"
    using that built by (rule search_content_sends)
  show ?thesis
    using built keys fields wire by blast
qed

text \<open>The theorem at the arguments \<open>keyword\<close> and \<open>limit\<close>, in the store right after
  import.\<close>

theorem C5_payload_complete_with_defaults_witness:
  "defaults_intact (heap world0)
   \<and> map_of [(''keyword'', PyStr ''conduct''), (''limit'', PyInt 5)] ''keyword'' \<noteq> None
   \<and> set (map fst [(''keyword'', PyStr ''conduct''), (''limit'', PyInt 5)]) \<subseteq> set field_names
   \<and> (\<exists>entries.
         outbound_payload [(''keyword'', PyStr ''conduct''), (''limit'', PyInt 5)] world0 =
           Inr (JObj entries)
       \<and> map fst entries = field_names
       \<and> map_of entries ''keyword'' = Some (JStr ''conduct'')
       \<and> map_of entries ''limit'' = Some (JInt 5)
       \<and> map_of entries ''flagFilter'' = Some (JStr ''ALL'')
       \<and> map_of entries ''cursor'' = Some (JStr ''*'')
       \<and> map_of entries ''approvers'' = Some (JList [])
       \<and> map_of entries ''customFields'' = Some (JObj [])
       \<and> map_of entries ''hasImage'' = Some (JBool False)
       \<and> map_of entries ''starRating'' = Some (JInt 0))"
proof -
  let ?args = "[(''keyword'', PyStr ''conduct''), (''limit'', PyInt 5)]"
  have a: "defaults_intact (heap world0)"
    by (simp add: defaults_intact_def default_objects_def world0_def module_heap_def)
  have b: "map_of ?args ''keyword'' \<noteq> None" by simp
  have c: "set (map fst ?args) \<subseteq> set field_names" by (simp add: field_names_def)
  from C5_payload_complete_with_defaults [OF a b c, of None remote_ok "[]" "''t''"]
  obtain entries where e: "outbound_payload ?args world0 = Inr (JObj entries)"
    and k: "map fst entries = field_names"
    and f: "\<forall>n \<in> set field_names. map_of entries n = spec_field (heap world0) ?args n"
    by auto
  have g: "map_of entries ''keyword'' = Some (JStr ''conduct'')
       \<and> map_of entries ''limit'' = Some (JInt 5)
       \<and> map_of entries ''flagFilter'' = Some (JStr ''ALL'')
       \<and> map_of entries ''cursor'' = Some (JStr ''*'')
       \<and> map_of entries ''approvers'' = Some (JList [])
       \<and> map_of entries ''customFields'' = Some (JObj [])
       \<and> map_of entries ''hasImage'' = Some (JBool False)
       \<and> map_of entries ''starRating'' = Some (JInt 0)"
    using f by (simp add: field_names_def spec_field_def spec_defaults_def)
  show ?thesis
    using a b c e k g by blast
qed

section \<open>No mutation\<close>

text \<open>
  Claim C10. An invocation of \<open>search_content\<close> leaves every container of the store as
  it found it, the containers of its arguments and the shared default objects alike,
  whatever the credential, the endpoint and the arguments; so does any sequence of
  invocations. The payload an invocation builds therefore does not depend on the
  invocations before it, and two invocations in sequence with the same arguments send
  the same payload, even when the endpoint answers them differently.
\<close>

theorem C10_no_mutation_deterministic_payload:
  shows "heap (snd (search_content api_token rem args w)) = heap w
       \<and> heap (run_calls api_token rem calls w) = heap w
       \<and> outbound_payload args (run_calls api_token rem calls w) = outbound_payload args w
       \<and> (tok \<noteq> [] \<and> outbound_payload args w = Inr p \<longrightarrow>
            map body (sent (snd (search_content (Some tok) rem' args
                                   (snd (search_content (Some tok) rem args w))))) =
            map body (sent w) @ [p, p])"
proof -
  have twice: "map body (sent (snd (search_content (Some tok) rem' args
                                   (snd (search_content (Some tok) rem args w))))) =
            map body (sent w) @ [p, p]"
    if t: "tok \<noteq> []" and p: "outbound_payload args w = Inr p"
  proof -
    let ?w1 = "snd (search_content (Some tok) rem args w)"
    have one: "map body (sent ?w1) = map body (sent w) @ [p]"
      using t p by (rule search_content_sends)
    have "outbound_payload args ?w1 = Inr p"
      using p by (simp add: outbound_payload_heap [OF search_content_heap])
    with t have "map body (sent (snd (search_content (Some tok) rem' args ?w1))) =
                   map body (sent ?w1) @ [p]"
      by (rule search_content_sends)
    with one show ?thesis by simp
  qed
  show ?thesis
    using twice
    by (simp add: search_content_heap run_calls_heap outbound_payload_heap [OF run_calls_heap])
qed

text \<open>The theorem at two invocations with \<open>keyword\<close> alone, the first answered with
  200 and the second with 500.\<close>

theorem C10_no_mutation_deterministic_payload_witness:
  "''t'' \<noteq> []
   \<and> heap (snd (search_content (Some ''t'') remote_ok [(''keyword'', PyStr ''conduct'')] world0)) =
       module_heap
   \<and> outbound_payload [(''keyword'', PyStr ''conduct'')]
         (run_calls (Some ''t'') remote_ok [[(''keyword'', PyStr ''a'')], [(''keyword'', PyStr ''b'')]] world0) =
       outbound_payload [(''keyword'', PyStr ''conduct'')] world0
   \<and> (\<exists>p. outbound_payload [(''keyword'', PyStr ''conduct'')] world0 = Inr p
        \<and> map body (sent (snd (search_content (Some ''t'') remote_500 [(''keyword'', PyStr ''conduct'')]
             (snd (search_content (Some ''t'') remote_ok [(''keyword'', PyStr ''conduct'')] world0))))) =
           [p, p])"
proof -
  let ?args = "[(''keyword'', PyStr ''conduct'')]"
  have t: "''t'' \<noteq> []" by simp
  have kw: "map_of ?args ''keyword'' = Some (PyStr ''conduct'')" by simp
  have decl: "set (map fst ?args) \<subseteq> set field_names" by (simp add: field_names_def)
  have "\<exists>p. outbound_payload ?args world0 = Inr p"
    by (rule exI, rule payload_ok [OF kw decl])
  then obtain p where p: "outbound_payload ?args world0 = Inr p" ..
  note th = C10_no_mutation_deterministic_payload
  have a: "heap (snd (search_content (Some ''t'') remote_ok ?args world0)) = module_heap"
    using th [of "Some ''t''" remote_ok ?args world0, THEN conjunct1]
    by (simp add: world0_def)
  have b: "outbound_payload ?args
         (run_calls (Some ''t'') remote_ok [[(''keyword'', PyStr ''a'')], [(''keyword'', PyStr ''b'')]] world0) =
       outbound_payload ?args world0"
    by (rule th [THEN conjunct2, THEN conjunct2, THEN conjunct1])
  have "map body (sent (snd (search_content (Some ''t'') remote_500 ?args
             (snd (search_content (Some ''t'') remote_ok ?args world0))))) =
          map body (sent world0) @ [p, p]"
    by (rule th [THEN conjunct2, THEN conjunct2, THEN conjunct2, rule_format, OF conjI [OF t p]])
  then have c: "map body (sent (snd (search_content (Some ''t'') remote_500 ?args
             (snd (search_content (Some ''t'') remote_ok ?args world0))))) = [p, p]"
    by (simp add: world0_def)
  show ?thesis
    using t a b p c by (intro conjI exI [where x = p])
qed

section \<open>The envelope of a tool call\<close>

lemma search_content_configured:
  assumes "tok \<noteq> []" and "request_data args = Inr data"
  shows "search_content (Some tok) rem args w =
     (Inr (case try_body (rem (sent w) (post_request tok (heap w) data)) of
             Inr v \<Rightarrow> v | Inl e \<Rightarrow> except_clauses e),
      w\<lparr>sent := sent w @ [post_request tok (heap w) data]\<rparr>)"
  using assms by (simp add: search_content_def mrr_configured)

lemma payload_data:
  assumes "outbound_payload args w = Inr p"
  shows "\<exists>data. request_data args = Inr data"
  using assms by (cases "request_data args") (simp_all add: outbound_payload_def)

lemma conduct_payload:
  "\<exists>p. outbound_payload [(''keyword'', PyStr ''conduct'')] world0 = Inr p"
proof -
  have kw: "map_of [(''keyword'', PyStr ''conduct'')] ''keyword'' = Some (PyStr ''conduct'')"
    by simp
  have decl: "set (map fst [(''keyword'', PyStr ''conduct'')]) \<subseteq> set field_names"
    by (simp add: field_names_def)
  show ?thesis by (rule exI, rule payload_ok [OF kw decl])
qed

section \<open>The tool list\<close>

text \<open>
  Claim C6, as the code has it. The list of tools, which does not depend on any call
  made before, holds exactly one descriptor, named \<open>search_content\<close>. Its schema lists the
  22 parameters of the documented field set, in the order of the signature: \<open>keyword\<close>,
  which is required and has no default, and 21 optional parameters. In the store as the
  \<^verbatim>\<open>def\<close> statement left it, each of the 21 has its documented default.
\<close>

theorem C6_one_tool_22_parameters:
  "map tool_name list_tools = [''search_content'']
   \<and> map (\<lambda>d. map fst (parameters d)) list_tools = [field_names]
   \<and> length field_names = 22
   \<and> map (\<lambda>d. map fst (filter (\<lambda>(n, ty, dv). dv = None) (parameters d))) list_tools =
       [[''keyword'']]
   \<and> map (\<lambda>d. length (filter (\<lambda>(n, ty, dv). dv \<noteq> None) (parameters d))) list_tools = [21]
   \<and> (defaults_intact h \<longrightarrow>
        map (\<lambda>d. map (\<lambda>(n, ty, dv). (n, map_option (deref h) dv)) (parameters d)) list_tools =
          [map (\<lambda>n. (n, map_of spec_defaults n)) field_names])"
proof (intro conjI impI)
  show "map tool_name list_tools = [''search_content'']"
    by (simp add: list_tools_def)
  show "map (\<lambda>d. map fst (parameters d)) list_tools = [field_names]"
    by (simp add: list_tools_def param_names)
  show "length field_names = 22"
    by (simp add: field_names_def)
  show "map (\<lambda>d. map fst (filter (\<lambda>(n, ty, dv). dv = None) (parameters d))) list_tools =
       [[''keyword'']]"
    by (simp add: list_tools_def search_content_params_def)
  show "map (\<lambda>d. length (filter (\<lambda>(n, ty, dv). dv \<noteq> None) (parameters d))) list_tools = [21]"
    by (simp add: list_tools_def search_content_params_def)
next
  assume "defaults_intact h"
  note vals = defaults_intact_values [OF this]
  show "map (\<lambda>d. map (\<lambda>(n, ty, dv). (n, map_option (deref h) dv)) (parameters d)) list_tools =
          [map (\<lambda>n. (n, map_of spec_defaults n)) field_names]"
    by (simp add: list_tools_def search_content_params_def field_names_def spec_defaults_def
          vals del: One_nat_def)
qed

text \<open>The theorem in the store right after import.\<close>

theorem C6_one_tool_22_parameters_witness:
  "defaults_intact module_heap
   \<and> map tool_name list_tools = [''search_content'']
   \<and> map (\<lambda>d. length (parameters d)) list_tools = [22]
   \<and> map (\<lambda>d. map (\<lambda>(n, ty, dv). (n, map_option (deref module_heap) dv)) (parameters d))
         list_tools =
       [map (\<lambda>n. (n, map_of spec_defaults n)) field_names]"
proof -
  have a: "defaults_intact module_heap"
    by (simp add: defaults_intact_def default_objects_def module_heap_def)
  note th = C6_one_tool_22_parameters [of module_heap]
  have b: "map tool_name list_tools = [''search_content'']"
    by (rule th [THEN conjunct1])
  have "map (\<lambda>d. map fst (parameters d)) list_tools = [field_names]"
    by (rule th [THEN conjunct2, THEN conjunct1])
  then have "map length (map (\<lambda>d. map fst (parameters d)) list_tools) = map length [field_names]"
    by (rule arg_cong)
  then have c: "map (\<lambda>d. length (parameters d)) list_tools = [22]"
    using th [THEN conjunct2, THEN conjunct2, THEN conjunct1] by (simp add: comp_def)
  have d: "map (\<lambda>d. map (\<lambda>(n, ty, dv). (n, map_option (deref module_heap) dv)) (parameters d))
         list_tools = [map (\<lambda>n. (n, map_of spec_defaults n)) field_names]"
    using a by (rule th [THEN conjunct2, THEN conjunct2, THEN conjunct2, THEN conjunct2,
                          THEN conjunct2, rule_format])
  show ?thesis using a b c d by (intro conjI)
qed

text \<open>
  Claim C6 as stated fails: the schema does not have 21 parameters, and \<open>keyword\<close> is
  listed with no default.
\<close>

theorem C6_counterexample:
  "map (\<lambda>d. length (parameters d)) list_tools \<noteq> [21]
   \<and> map (\<lambda>d. map_of (parameters d) ''keyword'') list_tools = [Some (TStr, None)]"
  by (simp add: list_tools_def search_content_params_def)

section \<open>One outbound call\<close>

text \<open>
  Claim C8. With a credential configured, \<open>make_responsive_request\<close> adds exactly one
  request to the log of outbound calls, whatever the endpoint does with it, and that
  request carries a timeout of 30 seconds; an invocation of \<open>search_content\<close> whose
  arguments bind sends exactly one request. No invocation, under any credential,
  arguments or endpoint, sends more than one, and a sequence of invocations sends at
  most one request each: nothing is retried.
\<close>

theorem C8_single_call_with_timeout:
  assumes "tok \<noteq> []"
  shows "sent (snd (make_responsive_request (Some tok) rem data w)) =
           sent w @ [post_request tok (heap w) data]
         \<and> timeout (post_request tok (heap w) data) = 30
         \<and> (outbound_payload args w = Inr p \<longrightarrow>
              length (sent (snd (search_content (Some tok) rem args w))) = Suc (length (sent w)))
         \<and> length (sent (snd (search_content api_token rem args w))) \<le> Suc (length (sent w))
         \<and> length (sent (run_calls api_token rem calls w)) \<le> length (sent w) + length calls"
proof (intro conjI impI)
  show "sent (snd (make_responsive_request (Some tok) rem data w)) =
           sent w @ [post_request tok (heap w) data]"
    using assms by (simp add: mrr_configured)
  show "timeout (post_request tok (heap w) data) = 30"
    by (simp add: post_request_def)
  show "length (sent (snd (search_content api_token rem args w))) \<le> Suc (length (sent w))"
    by (rule search_content_sent_le)
  show "length (sent (run_calls api_token rem calls w)) \<le> length (sent w) + length calls"
    by (rule run_calls_sent)
next
  assume "outbound_payload args w = Inr p"
  with assms have "map body (sent (snd (search_content (Some tok) rem args w))) =
                     map body (sent w) @ [p]"
    by (rule search_content_sends)
  then have "length (map body (sent (snd (search_content (Some tok) rem args w)))) =
               length (map body (sent w) @ [p])"
    by (rule arg_cong)
  then show "length (sent (snd (search_content (Some tok) rem args w))) = Suc (length (sent w))"
    by simp
qed

text \<open>The theorem at an endpoint that cannot be reached.\<close>

theorem C8_single_call_with_timeout_witness:
  "''t'' \<noteq> []
   \<and> sent (snd (make_responsive_request (Some ''t'') remote_down [] world0)) =
       [post_request ''t'' module_heap []]
   \<and> timeout (post_request ''t'' module_heap []) = 30
   \<and> (\<exists>p. outbound_payload [(''keyword'', PyStr ''conduct'')] world0 = Inr p)
   \<and> length (sent (snd (search_content (Some ''t'') remote_down
                [(''keyword'', PyStr ''conduct'')] world0))) = 1"
proof -
  let ?args = "[(''keyword'', PyStr ''conduct'')]"
  have t: "''t'' \<noteq> []" by simp
  obtain p where p: "outbound_payload ?args world0 = Inr p"
    using conduct_payload ..
  note th = C8_single_call_with_timeout [OF t, of remote_down _ world0]
  have a: "sent (snd (make_responsive_request (Some ''t'') remote_down [] world0)) =
       [post_request ''t'' module_heap []]"
    using th [of "[]", THEN conjunct1] by (simp add: world0_def)
  have b: "timeout (post_request ''t'' module_heap []) = 30"
    using th [of "[]", THEN conjunct2, THEN conjunct1] by (simp add: world0_def)
  have "length (sent (snd (search_content (Some ''t'') remote_down ?args world0))) =
          Suc (length (sent world0))"
    using p by (rule th [THEN conjunct2, THEN conjunct2, THEN conjunct1, rule_format])
  then have c: "length (sent (snd (search_content (Some ''t'') remote_down ?args world0))) = 1"
    by (simp add: world0_def)
  show ?thesis using t a b p c by (intro conjI exI [where x = p])
qed

end
